theory Spec2Isabelle
  imports Complex_Main "HOL-Library.Multiset" "HOL-Library.Sublist"
begin

section \<open>The Cloudinary URL builder of \<^verbatim>\<open>src/lib/cloudinary.ts\<close>\<close>

subsection \<open>JavaScript values: numbers, truthiness, string conversion\<close>

text \<open>
  A TypeScript \<^verbatim>\<open>number\<close> is an IEEE double. \<open>Fin q\<close> is the finite double whose value
  is the rational \<open>q\<close> (both zeros are \<open>Fin 0\<close>: they are falsy and print alike); the
  three special values are constructors of their own. The builder tests a number for
  truthiness and converts it to a string inside a template literal; the DPR srcset also
  multiplies a breakpoint width by a device pixel ratio. \<open>numToString\<close> is the
  Number-to-string conversion of ECMA-262 in radix 10, the shortest decimal that rounds
  back to the double, in plain or in exponent notation. A rational that is not a double
  is read the way a numeric literal is, as the nearest double.
\<close>

datatype number = Fin rat | NaN | PosInfinity | NegInfinity

definition digitChar :: "nat \<Rightarrow> char" where
  "digitChar d = ''0123456789'' ! d"

text \<open>The decimal digits of a non-negative integer.\<close>

function digitsToString :: "int \<Rightarrow> string" where
  "digitsToString i =
     (if i < 10 then [digitChar (nat i)]
      else digitsToString (i div 10) @ [digitChar (nat (i mod 10))])"
  by pat_completeness auto
termination
  by (relation "measure nat") auto

declare digitsToString.simps [simp del]

text \<open>
  The number of binary and of decimal digits of a positive integer, and from them the
  binary exponent \<open>\<lfloor>log\<^sub>2 x\<rfloor>\<close> and the decimal exponent \<open>n\<close> with
  \<open>10\<^sup>n\<^sup>-\<^sup>1 \<le> x < 10\<^sup>n\<close> of a positive rational.
\<close>

function bitLength :: "int \<Rightarrow> int" where
  "bitLength i = (if i \<le> 0 then 0 else 1 + bitLength (i div 2))"
  by pat_completeness auto
termination
  by (relation "measure nat") auto

declare bitLength.simps [simp del]

function decLength :: "int \<Rightarrow> int" where
  "decLength i = (if i \<le> 0 then 0 else 1 + decLength (i div 10))"
  by pat_completeness auto
termination
  by (relation "measure nat") auto

declare decLength.simps [simp del]

definition pow2 :: "int \<Rightarrow> rat" where
  "pow2 e = (if 0 \<le> e then 2 ^ nat e else 1 / 2 ^ nat (- e))"

definition pow10 :: "int \<Rightarrow> rat" where
  "pow10 e = (if 0 \<le> e then 10 ^ nat e else 1 / 10 ^ nat (- e))"

definition binaryExponent :: "rat \<Rightarrow> int" where
  "binaryExponent x =
     (if 1 \<le> x then bitLength \<lfloor>x\<rfloor> - 1 else - bitLength (\<lceil>1 / x\<rceil> - 1))"

definition decimalExponent :: "rat \<Rightarrow> int" where
  "decimalExponent x =
     (if 1 \<le> x then decLength \<lfloor>x\<rfloor> else 1 - decLength (\<lceil>1 / x\<rceil> - 1))"

text \<open>
  Binary64: a positive double is \<open>m \<times> 2\<^sup>e\<close> with \<open>m < 2\<^sup>5\<^sup>3\<close> and \<open>e \<ge> -1074\<close>;
  \<open>ulpExponent\<close> is the \<open>e\<close> of the binade of \<open>x\<close>. \<open>toDouble\<close> rounds a positive rational
  to the nearest double, ties to the even mantissa; a result with binary exponent 1024 or
  more stands for the overflow to infinity.
\<close>

definition ulpExponent :: "rat \<Rightarrow> int" where
  "ulpExponent x = max (binaryExponent x - 52) (- 1074)"

definition roundHalfEven :: "rat \<Rightarrow> int" where
  "roundHalfEven y =
     (let f = \<lfloor>y\<rfloor>; r = y - of_int f
      in if r < 1 / 2 then f else if 1 / 2 < r then f + 1 else if even f then f else f + 1)"

definition toDouble :: "rat \<Rightarrow> rat" where
  "toDouble x = (let e = ulpExponent x in of_int (roundHalfEven (x / pow2 e)) * pow2 e)"

text \<open>
  The reals that round to the double \<open>x\<close>: those between the midpoints to its two
  neighbours, the midpoints included when the mantissa of \<open>x\<close> is even. Below a power of
  two the lower neighbour is half a unit away.
\<close>

definition inRoundingInterval :: "rat \<Rightarrow> rat \<Rightarrow> bool" where
  "inRoundingInterval x y =
     (let e = ulpExponent x;
          m = \<lfloor>x / pow2 e\<rfloor>;
          up = pow2 e / 2;
          down = (if m = 2 ^ 52 \<and> - 1074 < e then pow2 (e - 1) else pow2 e) / 2
      in if even m then x - down \<le> y \<and> y \<le> x + up else x - down < y \<and> y < x + up)"

text \<open>
  Number::toString (ECMA-262): take integers \<open>n\<close>, \<open>k\<close>, \<open>s\<close> with \<open>k \<ge> 1\<close>,
  \<open>10\<^sup>k\<^sup>-\<^sup>1 \<le> s < 10\<^sup>k\<close>, such that \<open>s \<times> 10\<^sup>n\<^sup>-\<^sup>k\<close> rounds to \<open>x\<close> and \<open>k\<close> is as small as
  possible; among several \<open>s\<close> take the one closest to \<open>x\<close>, the even one on a tie.
  For one \<open>k\<close> the closest such \<open>s\<close> is the floor of \<open>x / 10\<^sup>n\<^sup>-\<^sup>k\<close> or its successor, for
  \<open>n\<close> the decimal exponent of \<open>x\<close> or the next one. Seventeen digits always suffice.
\<close>

definition candidates :: "rat \<Rightarrow> int \<Rightarrow> int \<Rightarrow> (int \<times> int) list" where
  "candidates x k n =
     (let u = pow10 (n - k); f = \<lfloor>x / u\<rfloor>
      in map (\<lambda>s. (s, n))
           (filter (\<lambda>s. 10 ^ nat (k - 1) \<le> s \<and> s < 10 ^ nat k \<and>
                        inRoundingInterval x (of_int s * u))
              [f, f + 1]))"

definition closer :: "rat \<Rightarrow> int \<Rightarrow> (int \<times> int) \<Rightarrow> (int \<times> int) \<Rightarrow> (int \<times> int)" where
  "closer x k a b =
     (let d1 = \<bar>of_int (fst a) * pow10 (snd a - k) - x\<bar>;
          d2 = \<bar>of_int (fst b) * pow10 (snd b - k) - x\<bar>
      in if d1 < d2 then a else if d2 < d1 then b else if even (fst a) then a else b)"

function shortestDigits :: "rat \<Rightarrow> int \<Rightarrow> (int \<times> int) \<times> int" where
  "shortestDigits x k =
     (let n0 = decimalExponent x
      in case candidates x k n0 @ candidates x k (n0 + 1) of
           c # cs \<Rightarrow> (foldl (closer x k) c cs, k)
         | [] \<Rightarrow>
             if 17 \<le> k then ((\<lfloor>x / pow10 (n0 - k)\<rfloor>, n0), k)
             else shortestDigits x (k + 1))"
  by pat_completeness auto
termination
  by (relation "measure (\<lambda>(x, k). nat (17 - k))") auto

declare shortestDigits.simps [simp del]

text \<open>
  The layout of the digits: plain decimal notation for \<open>-6 < n \<le> 21\<close>, exponent notation
  otherwise.
\<close>

definition formatDigits :: "int \<Rightarrow> int \<Rightarrow> int \<Rightarrow> string" where
  "formatDigits s k n =
     (let d = digitsToString s
      in if k \<le> n \<and> n \<le> 21 then d @ replicate (nat (n - k)) CHR ''0''
         else if 0 < n \<and> n \<le> 21 then take (nat n) d @ ''.'' @ drop (nat n) d
         else if - 6 < n \<and> n \<le> 0 then ''0.'' @ replicate (nat (- n)) CHR ''0'' @ d
         else
           (let e = n - 1;
                sign = (if 0 \<le> e then ''+'' else ''-'');
                mantissa = (if k = 1 then d else take 1 d @ ''.'' @ drop 1 d)
            in mantissa @ ''e'' @ sign @ digitsToString \<bar>e\<bar>))"

definition positiveToString :: "rat \<Rightarrow> string" where
  "positiveToString x =
     (let v = toDouble x
      in if v = 0 then ''0''
         else if 1024 \<le> binaryExponent v then ''Infinity''
         else (case shortestDigits v 1 of ((s, n), k) \<Rightarrow> formatDigits s k n))"

definition finiteToString :: "rat \<Rightarrow> string" where
  "finiteToString q =
     (if toDouble \<bar>q\<bar> = 0 then ''0''
      else if q < 0 then ''-'' @ positiveToString (- q)
      else positiveToString q)"

fun numToString :: "number \<Rightarrow> string" where
  "numToString (Fin q) = finiteToString q"
| "numToString NaN = ''NaN''"
| "numToString PosInfinity = ''Infinity''"
| "numToString NegInfinity = ''-Infinity''"

text \<open>Truthiness (ECMAScript ToBoolean): zero and NaN are falsy, the empty string is falsy.\<close>

fun truthyNumber :: "number \<Rightarrow> bool" where
  "truthyNumber (Fin q) = (q \<noteq> 0)"
| "truthyNumber NaN = False"
| "truthyNumber PosInfinity = True"
| "truthyNumber NegInfinity = True"

definition truthyString :: "string \<Rightarrow> bool" where
  "truthyString s = (s \<noteq> [])"

definition truthyBool :: "bool \<Rightarrow> bool" where
  "truthyBool b = b"

text \<open>The guard \<^verbatim>\<open>x !== undefined\<close> holds for every value a populated field carries.\<close>

definition notUndefined :: "'a \<Rightarrow> bool" where
  "notUndefined v = True"

subsection \<open>The options interface \<^verbatim>\<open>CloudinaryTransforms\<close>\<close>

text \<open>
  The string-literal union types of the interface are datatypes, each with the function
  that gives back the literal (so the truthiness of such a value is the truthiness of its
  literal). A union with \<^verbatim>\<open>number\<close> keeps the number as a constructor.
\<close>

datatype crop_mode =
  Fill | Fit | Scale | Crop | Thumb | Pad | Limit | Mfit | Mpad | Lfill | Lpad

fun cropToString :: "crop_mode \<Rightarrow> string" where
  "cropToString Fill = ''fill''"
| "cropToString Fit = ''fit''"
| "cropToString Scale = ''scale''"
| "cropToString Crop = ''crop''"
| "cropToString Thumb = ''thumb''"
| "cropToString Pad = ''pad''"
| "cropToString Limit = ''limit''"
| "cropToString Mfit = ''mfit''"
| "cropToString Mpad = ''mpad''"
| "cropToString Lfill = ''lfill''"
| "cropToString Lpad = ''lpad''"

datatype gravity_mode =
  GAuto | Center | Face | Faces | Body | North | South | East | West
  | NorthEast | NorthWest | SouthEast | SouthWest | XyCenter | AdvFace | AdvFaces | AdvEyes

fun gravityToString :: "gravity_mode \<Rightarrow> string" where
  "gravityToString GAuto = ''auto''"
| "gravityToString Center = ''center''"
| "gravityToString Face = ''face''"
| "gravityToString Faces = ''faces''"
| "gravityToString Body = ''body''"
| "gravityToString North = ''north''"
| "gravityToString South = ''south''"
| "gravityToString East = ''east''"
| "gravityToString West = ''west''"
| "gravityToString NorthEast = ''north_east''"
| "gravityToString NorthWest = ''north_west''"
| "gravityToString SouthEast = ''south_east''"
| "gravityToString SouthWest = ''south_west''"
| "gravityToString XyCenter = ''xy_center''"
| "gravityToString AdvFace = ''adv_face''"
| "gravityToString AdvFaces = ''adv_faces''"
| "gravityToString AdvEyes = ''adv_eyes''"

datatype quality_value =
  QAuto | QAutoBest | QAutoGood | QAutoLow | QAutoEco | QNumber number

fun qualityToString :: "quality_value \<Rightarrow> string" where
  "qualityToString QAuto = ''auto''"
| "qualityToString QAutoBest = ''auto:best''"
| "qualityToString QAutoGood = ''auto:good''"
| "qualityToString QAutoLow = ''auto:low''"
| "qualityToString QAutoEco = ''auto:eco''"
| "qualityToString (QNumber n) = numToString n"

fun truthyQuality :: "quality_value \<Rightarrow> bool" where
  "truthyQuality (QNumber n) = truthyNumber n"
| "truthyQuality _ = True"

datatype format_value =
  FAuto | FWebp | FAvif | FJpg | FPng | FGif | FSvg | FBmp | FTiff

fun formatToString :: "format_value \<Rightarrow> string" where
  "formatToString FAuto = ''auto''"
| "formatToString FWebp = ''webp''"
| "formatToString FAvif = ''avif''"
| "formatToString FJpg = ''jpg''"
| "formatToString FPng = ''png''"
| "formatToString FGif = ''gif''"
| "formatToString FSvg = ''svg''"
| "formatToString FBmp = ''bmp''"
| "formatToString FTiff = ''tiff''"

datatype fetch_format_value = FFAuto | FFWebp | FFAvif

fun fetchFormatToString :: "fetch_format_value \<Rightarrow> string" where
  "fetchFormatToString FFAuto = ''auto''"
| "fetchFormatToString FFWebp = ''webp''"
| "fetchFormatToString FFAvif = ''avif''"

datatype dpr_value = DprAuto | DprNumber number

fun dprToString :: "dpr_value \<Rightarrow> string" where
  "dprToString DprAuto = ''auto''"
| "dprToString (DprNumber n) = numToString n"

fun truthyDpr :: "dpr_value \<Rightarrow> bool" where
  "truthyDpr DprAuto = True"
| "truthyDpr (DprNumber n) = truthyNumber n"

datatype vignette_value = VignetteNumber number | VignetteString string

fun vignetteToString :: "vignette_value \<Rightarrow> string" where
  "vignetteToString (VignetteNumber n) = numToString n"
| "vignetteToString (VignetteString s) = s"

fun truthyVignette :: "vignette_value \<Rightarrow> bool" where
  "truthyVignette (VignetteNumber n) = truthyNumber n"
| "truthyVignette (VignetteString s) = truthyString s"

text \<open>Every field of the interface is optional: \<open>None\<close> is \<^verbatim>\<open>undefined\<close>.\<close>

record CloudinaryTransforms =
  width :: "number option"
  height :: "number option"
  aspectRatio :: "string option"
  crop :: "crop_mode option"
  gravity :: "gravity_mode option"
  quality :: "quality_value option"
  format :: "format_value option"
  fetchFormat :: "fetch_format_value option"
  dpr :: "dpr_value option"
  brightness :: "number option"
  contrast :: "number option"
  saturation :: "number option"
  gamma :: "number option"
  vibrance :: "number option"
  hue :: "number option"
  opacity :: "number option"
  blur :: "number option"
  sharpen :: "number option"
  unsharpMask :: "string option"
  sepia :: "number option"
  grayscale :: "bool option"
  blackwhite :: "string option"
  negate :: "bool option"
  oilPaint :: "number option"
  vignette :: "vignette_value option"
  pixelate :: "number option"
  border :: "string option"
  background :: "string option"
  angle :: "number option"
  progressive :: "bool option"
  immutableCache :: "bool option"
  stripProfile :: "bool option"
  customTransform :: "string option"

text \<open>The default argument \<^verbatim>\<open>{}\<close>: no field is set.\<close>

definition emptyTransforms :: CloudinaryTransforms where
  "emptyTransforms =
     \<lparr>width = None, height = None, aspectRatio = None, crop = None, gravity = None,
      quality = None, format = None, fetchFormat = None, dpr = None, brightness = None,
      contrast = None, saturation = None, gamma = None, vibrance = None, hue = None,
      opacity = None, blur = None, sharpen = None, unsharpMask = None, sepia = None,
      grayscale = None, blackwhite = None, negate = None, oilPaint = None, vignette = None,
      pixelate = None, border = None, background = None, angle = None, progressive = None,
      immutableCache = None, stripProfile = None, customTransform = None\<rparr>"

subsection \<open>Account resolution: \<^verbatim>\<open>getCloudName\<close>\<close>

text \<open>
  The only global state read by the module. \<open>import_meta_env\<close> is \<^verbatim>\<open>import.meta.env\<close>
  (defined by the Vite build of the site, \<open>None\<close> where it is undefined), \<open>process_env\<close> is
  \<^verbatim>\<open>process?.env\<close> (\<open>None\<close> where it is undefined); each is a table from variable names to
  strings. The identifier \<^verbatim>\<open>process\<close> itself is declared wherever the module is loaded
  without \<^verbatim>\<open>import.meta.env\<close> (server-side rendering under Node).
\<close>

record environment =
  import_meta_env :: "(string \<rightharpoonup> string) option"
  process_env :: "(string \<rightharpoonup> string) option"

text \<open>\<^verbatim>\<open>value || 'demo'\<close> on a string that may be undefined.\<close>

definition orDemo :: "string option \<Rightarrow> string" where
  "orDemo v = (case v of None \<Rightarrow> ''demo'' | Some s \<Rightarrow> if truthyString s then s else ''demo'')"

definition getCloudName :: "environment \<Rightarrow> string" where
  "getCloudName env =
     (case import_meta_env env of
        Some e \<Rightarrow> orDemo (e ''PUBLIC_CLOUDINARY_CLOUD_NAME'')
      | None \<Rightarrow>
          (case process_env env of
             Some e \<Rightarrow> orDemo (e ''PUBLIC_CLOUDINARY_CLOUD_NAME'')
           | None \<Rightarrow> orDemo None))"

subsection \<open>\<^verbatim>\<open>buildCloudinaryUrl\<close>\<close>

text \<open>
  \<^verbatim>\<open>if (guard(field)) transformParts.push(token(field))\<close>: an unset field never passes a
  guard; a set field is pushed when its value passes.
\<close>

definition pushIf ::
  "'a option \<Rightarrow> ('a \<Rightarrow> bool) \<Rightarrow> ('a \<Rightarrow> string) \<Rightarrow> string list \<Rightarrow> string list" where
  "pushIf field guard token parts =
     (case field of
        None \<Rightarrow> parts
      | Some v \<Rightarrow> if guard v then parts @ [token v] else parts)"

text \<open>Lines 125 to 129: \<^verbatim>\<open>fetchFormat\<close> if available, otherwise \<^verbatim>\<open>format\<close>.\<close>

definition pushFormat :: "CloudinaryTransforms \<Rightarrow> string list \<Rightarrow> string list" where
  "pushFormat transforms parts =
     (let otherwise =
            pushIf (format transforms) (\<lambda>v. truthyString (formatToString v))
              (\<lambda>v. ''f_'' @ formatToString v) parts
      in case fetchFormat transforms of
           Some ff \<Rightarrow>
             if truthyString (fetchFormatToString ff)
             then parts @ [''f_'' @ fetchFormatToString ff]
             else otherwise
         | None \<Rightarrow> otherwise)"

text \<open>\<^verbatim>\<open>Array.prototype.join\<close>.\<close>

fun join :: "string \<Rightarrow> string list \<Rightarrow> string" where
  "join sep [] = []"
| "join sep [x] = x"
| "join sep (x # y # ys) = x @ sep @ join sep (y # ys)"

text \<open>The array \<^verbatim>\<open>transformParts\<close> after the last push (lines 107 to 169).\<close>

definition transformParts :: "CloudinaryTransforms \<Rightarrow> string list" where
  "transformParts transforms =
     (let parts = [];
          parts = pushIf (width transforms) truthyNumber (\<lambda>v. ''w_'' @ numToString v) parts;
          parts = pushIf (height transforms) truthyNumber (\<lambda>v. ''h_'' @ numToString v) parts;
          parts = pushIf (aspectRatio transforms) truthyString (\<lambda>v. ''ar_'' @ v) parts;
          parts = pushIf (dpr transforms) truthyDpr (\<lambda>v. ''dpr_'' @ dprToString v) parts;
          parts = pushIf (crop transforms) (\<lambda>v. truthyString (cropToString v))
                    (\<lambda>v. ''c_'' @ cropToString v) parts;
          parts = pushIf (gravity transforms) (\<lambda>v. truthyString (gravityToString v))
                    (\<lambda>v. ''g_'' @ gravityToString v) parts;
          parts = pushIf (quality transforms) truthyQuality (\<lambda>v. ''q_'' @ qualityToString v) parts;
          parts = pushFormat transforms parts;
          parts = pushIf (brightness transforms) notUndefined
                    (\<lambda>v. ''e_brightness:'' @ numToString v) parts;
          parts = pushIf (contrast transforms) notUndefined
                    (\<lambda>v. ''e_contrast:'' @ numToString v) parts;
          parts = pushIf (saturation transforms) notUndefined
                    (\<lambda>v. ''e_saturation:'' @ numToString v) parts;
          parts = pushIf (gamma transforms) notUndefined (\<lambda>v. ''e_gamma:'' @ numToString v) parts;
          parts = pushIf (vibrance transforms) notUndefined
                    (\<lambda>v. ''e_vibrance:'' @ numToString v) parts;
          parts = pushIf (hue transforms) notUndefined (\<lambda>v. ''e_hue:'' @ numToString v) parts;
          parts = pushIf (opacity transforms) notUndefined (\<lambda>v. ''o_'' @ numToString v) parts;
          parts = pushIf (blur transforms) truthyNumber (\<lambda>v. ''e_blur:'' @ numToString v) parts;
          parts = pushIf (sharpen transforms) truthyNumber
                    (\<lambda>v. ''e_sharpen:'' @ numToString v) parts;
          parts = pushIf (unsharpMask transforms) truthyString
                    (\<lambda>v. ''e_unsharp_mask:'' @ v) parts;
          parts = pushIf (sepia transforms) truthyNumber (\<lambda>v. ''e_sepia:'' @ numToString v) parts;
          parts = pushIf (grayscale transforms) truthyBool (\<lambda>v. ''e_grayscale'') parts;
          parts = pushIf (blackwhite transforms) truthyString (\<lambda>v. ''e_blackwhite:'' @ v) parts;
          parts = pushIf (negate transforms) truthyBool (\<lambda>v. ''e_negate'') parts;
          parts = pushIf (oilPaint transforms) truthyNumber
                    (\<lambda>v. ''e_oil_paint:'' @ numToString v) parts;
          parts = pushIf (vignette transforms) truthyVignette
                    (\<lambda>v. ''e_vignette'' @
                       (case v of VignetteNumber n \<Rightarrow> '':'' @ numToString n
                        | VignetteString s \<Rightarrow> '':'' @ s)) parts;
          parts = pushIf (pixelate transforms) truthyNumber
                    (\<lambda>v. ''e_pixelate:'' @ numToString v) parts;
          parts = pushIf (border transforms) truthyString (\<lambda>v. ''bo_'' @ v) parts;
          parts = pushIf (background transforms) truthyString (\<lambda>v. ''b_'' @ v) parts;
          parts = pushIf (angle transforms) truthyNumber (\<lambda>v. ''a_'' @ numToString v) parts;
          parts = pushIf (progressive transforms) truthyBool (\<lambda>v. ''fl_progressive'') parts;
          parts = pushIf (immutableCache transforms) truthyBool
                    (\<lambda>v. ''fl_immutable_cache'') parts;
          parts = pushIf (stripProfile transforms) truthyBool (\<lambda>v. ''fl_strip_profile'') parts;
          parts = pushIf (customTransform transforms) truthyString (\<lambda>v. v) parts
      in parts)"

definition buildCloudinaryUrl :: "environment \<Rightarrow> string \<Rightarrow> CloudinaryTransforms \<Rightarrow> string" where
  "buildCloudinaryUrl env publicId transforms =
     (let cloudName = getCloudName env;
          baseUrl = ''https://res.cloudinary.com/'' @ cloudName @ ''/image/upload'';
          parts = transformParts transforms;
          transformString = (if length parts > 0 then join '','' parts @ ''/'' else [])
      in baseUrl @ ''/'' @ transformString @ publicId)"

subsection \<open>Responsive sets and the placeholder\<close>

text \<open>
  \<^verbatim>\<open>RESPONSIVE_BREAKPOINTS\<close> is an object literal; \<^verbatim>\<open>Object.values\<close> lists its values in
  the order the keys were written.
\<close>

definition RESPONSIVE_BREAKPOINTS :: "(string \<times> rat) list" where
  "RESPONSIVE_BREAKPOINTS =
     [(''mobile'', 400), (''tablet'', 800), (''desktop'', 1200), (''large'', 1600)]"

definition objectValues :: "(string \<times> 'a) list \<Rightarrow> 'a list" where
  "objectValues obj = map snd obj"

text \<open>\<^verbatim>\<open>field || fallback\<close> on an optional field.\<close>

definition orElse :: "'a option \<Rightarrow> ('a \<Rightarrow> bool) \<Rightarrow> 'a \<Rightarrow> 'a" where
  "orElse field truthy fallback =
     (case field of None \<Rightarrow> fallback | Some v \<Rightarrow> if truthy v then v else fallback)"

record responsive_set =
  srcset :: string
  sizes :: string

definition defaultSizes :: string where
  "defaultSizes =
     ''(max-width: 640px) 400px, (max-width: 1024px) 800px, (max-width: 1440px) 1200px, 1600px''"

text \<open>
  \<^verbatim>\<open>getCloudinaryResponsiveSet\<close> (lines 184 to 209). \<open>responsiveOptions\<close> is the object
  literal passed to the builder for one breakpoint (the spread of the base options, then
  the four overriding properties), \<open>responsiveEntry\<close> the callback of \<^verbatim>\<open>map\<close>.
\<close>

definition responsiveOptions :: "CloudinaryTransforms \<Rightarrow> rat \<Rightarrow> CloudinaryTransforms" where
  "responsiveOptions baseTransforms w =
     baseTransforms
       \<lparr>width := Some (Fin w),
        crop := Some (orElse (crop baseTransforms) (\<lambda>v. truthyString (cropToString v)) Fill),
        quality := Some (orElse (quality baseTransforms) truthyQuality QAuto),
        format := Some FWebp\<rparr>"

definition responsiveEntry ::
  "environment \<Rightarrow> string \<Rightarrow> CloudinaryTransforms \<Rightarrow> rat \<Rightarrow> string" where
  "responsiveEntry env publicId baseTransforms w =
     (let url = buildCloudinaryUrl env publicId (responsiveOptions baseTransforms w)
      in url @ '' '' @ numToString (Fin w) @ ''w'')"

definition responsiveSrcsetEntries ::
  "environment \<Rightarrow> string \<Rightarrow> CloudinaryTransforms \<Rightarrow> string list" where
  "responsiveSrcsetEntries env publicId baseTransforms =
     (let breakpoints = objectValues RESPONSIVE_BREAKPOINTS
      in map (responsiveEntry env publicId baseTransforms) breakpoints)"

definition getCloudinaryResponsiveSet ::
  "environment \<Rightarrow> string \<Rightarrow> CloudinaryTransforms \<Rightarrow> responsive_set" where
  "getCloudinaryResponsiveSet env publicId baseTransforms =
     \<lparr>srcset = join '', '' (responsiveSrcsetEntries env publicId baseTransforms),
      sizes = defaultSizes\<rparr>"

definition getPlaceholderUrl :: "environment \<Rightarrow> string \<Rightarrow> string" where
  "getPlaceholderUrl env publicId =
     buildCloudinaryUrl env publicId
       (emptyTransforms
          \<lparr>width := Some (Fin 50), quality := Some QAutoLow, blur := Some (Fin 400),
           fetchFormat := Some FFAuto\<rparr>)"

text \<open>
  \<^verbatim>\<open>getCloudinaryDprSrcset\<close> (lines 319 to 351): the nested \<^verbatim>\<open>forEach\<close> pushes one
  entry per breakpoint and device pixel ratio, breakpoints outermost. \<open>dprOptions\<close> is the
  object literal passed to the builder, \<open>dprEntry\<close> the body of the inner callback.
\<close>

definition dprValues :: "bool \<Rightarrow> rat list" where
  "dprValues supportDpr = (if supportDpr then [1, 3 / 2, 2] else [1])"

definition dprOptions :: "CloudinaryTransforms \<Rightarrow> rat \<Rightarrow> rat \<Rightarrow> CloudinaryTransforms" where
  "dprOptions baseTransforms w d =
     baseTransforms
       \<lparr>width := Some (Fin w),
        dpr := Some (DprNumber (Fin d)),
        crop := Some (orElse (crop baseTransforms) (\<lambda>v. truthyString (cropToString v)) Fill),
        quality := Some (orElse (quality baseTransforms) truthyQuality QAuto),
        fetchFormat := Some FFAuto\<rparr>"

definition dprEntry ::
  "environment \<Rightarrow> string \<Rightarrow> CloudinaryTransforms \<Rightarrow> rat \<Rightarrow> rat \<Rightarrow> string" where
  "dprEntry env publicId baseTransforms w d =
     (let url = buildCloudinaryUrl env publicId (dprOptions baseTransforms w d);
          descriptor =
            (if d = 1 then numToString (Fin w) @ ''w'' else numToString (Fin (w * d)) @ ''w'')
      in url @ '' '' @ descriptor)"

definition dprSrcsetEntries ::
  "environment \<Rightarrow> string \<Rightarrow> CloudinaryTransforms \<Rightarrow> bool \<Rightarrow> string list" where
  "dprSrcsetEntries env publicId baseTransforms supportDpr =
     (let breakpoints = objectValues RESPONSIVE_BREAKPOINTS
      in concat (map (\<lambda>w. map (\<lambda>d. dprEntry env publicId baseTransforms w d)
                             (dprValues supportDpr)) breakpoints))"

definition getCloudinaryDprSrcset ::
  "environment \<Rightarrow> string \<Rightarrow> CloudinaryTransforms \<Rightarrow> bool \<Rightarrow> responsive_set" where
  "getCloudinaryDprSrcset env publicId baseTransforms supportDpr =
     \<lparr>srcset = join '', '' (dprSrcsetEntries env publicId baseTransforms supportDpr),
      sizes = defaultSizes\<rparr>"

subsection \<open>\<^verbatim>\<open>validatePublicId\<close>\<close>

text \<open>
  The regular expression \<^verbatim>\<open>/^[a-zA-Z0-9_\-\/\.]+$/\<close>: a character class given by three
  ranges of character codes and four single characters, repeated one or more times
  between the start and the end of the input. The parameter is typed \<^verbatim>\<open>string\<close>, so the
  \<^verbatim>\<open>typeof\<close> test of the guard never fires and the guard is the truthiness of the
  string. Strings are byte strings here; a character outside ASCII lies outside the class
  in the source and as bytes alike.
\<close>

definition charBetween :: "char \<Rightarrow> char \<Rightarrow> char \<Rightarrow> bool" where
  "charBetween lo hi c =
     ((of_char lo :: nat) \<le> of_char c \<and> (of_char c :: nat) \<le> of_char hi)"

definition validIdClass :: "char \<Rightarrow> bool" where
  "validIdClass c =
     (charBetween CHR ''a'' CHR ''z'' c \<or> charBetween CHR ''A'' CHR ''Z'' c \<or>
      charBetween CHR ''0'' CHR ''9'' c \<or>
      c = CHR ''_'' \<or> c = CHR ''-'' \<or> c = CHR ''/'' \<or> c = CHR ''.'')"

fun matchOneOrMore :: "(char \<Rightarrow> bool) \<Rightarrow> string \<Rightarrow> bool" where
  "matchOneOrMore cls [] = False"
| "matchOneOrMore cls (c # cs) = (cls c \<and> (cs = [] \<or> matchOneOrMore cls cs))"

definition validIdRegex_test :: "string \<Rightarrow> bool" where
  "validIdRegex_test s = matchOneOrMore validIdClass s"

definition validatePublicId :: "string \<Rightarrow> bool" where
  "validatePublicId publicId =
     (if \<not> truthyString publicId then False
      else validIdRegex_test publicId \<and> length publicId > 0)"

subsection \<open>Notions used to state the properties\<close>

text \<open>The list of tokens one guarded push contributes: none or one.\<close>

definition tokenOf :: "'a option \<Rightarrow> ('a \<Rightarrow> bool) \<Rightarrow> ('a \<Rightarrow> string) \<Rightarrow> string list" where
  "tokenOf field guard token =
     (case field of None \<Rightarrow> [] | Some v \<Rightarrow> if guard v then [token v] else [])"

text \<open>The tokens of lines 125 to 129.\<close>

definition formatTokens :: "CloudinaryTransforms \<Rightarrow> string list" where
  "formatTokens transforms = pushFormat transforms []"

text \<open>A format token is a token with the key \<^verbatim>\<open>f_\<close>.\<close>

definition isFormatToken :: "string \<Rightarrow> bool" where
  "isFormatToken tok = (take 2 tok = ''f_'')"

text \<open>The service root with the account segment.\<close>

definition uploadRoot :: "environment \<Rightarrow> string" where
  "uploadRoot env = ''https://res.cloudinary.com/'' @ getCloudName env @ ''/image/upload''"

text \<open>An environment in which the account name is not configured, and one where it is.\<close>

definition unsetEnv :: environment where
  "unsetEnv = \<lparr>import_meta_env = Some Map.empty, process_env = None\<rparr>"

definition portEnv :: environment where
  "portEnv =
     \<lparr>import_meta_env = Some [''PUBLIC_CLOUDINARY_CLOUD_NAME'' \<mapsto> ''pourtheport''],
      process_env = None\<rparr>"

text \<open>
  The character class as the specification words it: letters, digits, underscore, hyphen,
  slash, dot, the letters and digits being those of ASCII.
\<close>

definition isLetter :: "char \<Rightarrow> bool" where
  "isLetter c = (c \<in> set ''abcdefghijklmnopqrstuvwxyzABCDEFGHIJKLMNOPQRSTUVWXYZ'')"

definition isDigit :: "char \<Rightarrow> bool" where
  "isDigit c = (c \<in> set ''0123456789'')"

definition conservativeChar :: "char \<Rightarrow> bool" where
  "conservativeChar c =
     (isLetter c \<or> isDigit c \<or> c = CHR ''_'' \<or> c = CHR ''-'' \<or> c = CHR ''/'' \<or> c = CHR ''.'')"

text \<open>
  Building an options record step by step: each step is a record holding the fields it
  sets, and it is spread over what was built before (\<^verbatim>\<open>{...built, ...step}\<close>), a field
  set by the later record replacing the earlier value. \<open>construct\<close> applies the steps in
  the order written, starting from the empty object. Two steps are disjoint when no field
  is set by both.
\<close>

definition override :: "'a option \<Rightarrow> 'a option \<Rightarrow> 'a option" where
  "override earlier later = (case later of None \<Rightarrow> earlier | Some v \<Rightarrow> Some v)"

definition spread :: "CloudinaryTransforms \<Rightarrow> CloudinaryTransforms \<Rightarrow> CloudinaryTransforms" where
  "spread a b =
     \<lparr>width = override (width a) (width b),
      height = override (height a) (height b),
      aspectRatio = override (aspectRatio a) (aspectRatio b),
      crop = override (crop a) (crop b),
      gravity = override (gravity a) (gravity b),
      quality = override (quality a) (quality b),
      format = override (format a) (format b),
      fetchFormat = override (fetchFormat a) (fetchFormat b),
      dpr = override (dpr a) (dpr b),
      brightness = override (brightness a) (brightness b),
      contrast = override (contrast a) (contrast b),
      saturation = override (saturation a) (saturation b),
      gamma = override (gamma a) (gamma b),
      vibrance = override (vibrance a) (vibrance b),
      hue = override (hue a) (hue b),
      opacity = override (opacity a) (opacity b),
      blur = override (blur a) (blur b),
      sharpen = override (sharpen a) (sharpen b),
      unsharpMask = override (unsharpMask a) (unsharpMask b),
      sepia = override (sepia a) (sepia b),
      grayscale = override (grayscale a) (grayscale b),
      blackwhite = override (blackwhite a) (blackwhite b),
      negate = override (negate a) (negate b),
      oilPaint = override (oilPaint a) (oilPaint b),
      vignette = override (vignette a) (vignette b),
      pixelate = override (pixelate a) (pixelate b),
      border = override (border a) (border b),
      background = override (background a) (background b),
      angle = override (angle a) (angle b),
      progressive = override (progressive a) (progressive b),
      immutableCache = override (immutableCache a) (immutableCache b),
      stripProfile = override (stripProfile a) (stripProfile b),
      customTransform = override (customTransform a) (customTransform b)\<rparr>"

definition disjointFields :: "CloudinaryTransforms \<Rightarrow> CloudinaryTransforms \<Rightarrow> bool" where
  "disjointFields a b =
     ((width a = None \<or> width b = None) \<and>
      (height a = None \<or> height b = None) \<and>
      (aspectRatio a = None \<or> aspectRatio b = None) \<and>
      (crop a = None \<or> crop b = None) \<and>
      (gravity a = None \<or> gravity b = None) \<and>
      (quality a = None \<or> quality b = None) \<and>
      (format a = None \<or> format b = None) \<and>
      (fetchFormat a = None \<or> fetchFormat b = None) \<and>
      (dpr a = None \<or> dpr b = None) \<and>
      (brightness a = None \<or> brightness b = None) \<and>
      (contrast a = None \<or> contrast b = None) \<and>
      (saturation a = None \<or> saturation b = None) \<and>
      (gamma a = None \<or> gamma b = None) \<and>
      (vibrance a = None \<or> vibrance b = None) \<and>
      (hue a = None \<or> hue b = None) \<and>
      (opacity a = None \<or> opacity b = None) \<and>
      (blur a = None \<or> blur b = None) \<and>
      (sharpen a = None \<or> sharpen b = None) \<and>
      (unsharpMask a = None \<or> unsharpMask b = None) \<and>
      (sepia a = None \<or> sepia b = None) \<and>
      (grayscale a = None \<or> grayscale b = None) \<and>
      (blackwhite a = None \<or> blackwhite b = None) \<and>
      (negate a = None \<or> negate b = None) \<and>
      (oilPaint a = None \<or> oilPaint b = None) \<and>
      (vignette a = None \<or> vignette b = None) \<and>
      (pixelate a = None \<or> pixelate b = None) \<and>
      (border a = None \<or> border b = None) \<and>
      (background a = None \<or> background b = None) \<and>
      (angle a = None \<or> angle b = None) \<and>
      (progressive a = None \<or> progressive b = None) \<and>
      (immutableCache a = None \<or> immutableCache b = None) \<and>
      (stripProfile a = None \<or> stripProfile b = None) \<and>
      (customTransform a = None \<or> customTransform b = None))"

definition construct :: "CloudinaryTransforms list \<Rightarrow> CloudinaryTransforms" where
  "construct steps = fold (\<lambda>step built. spread built step) steps emptyTransforms"

text \<open>A record with every numeric field set to 600, out of range for most of them.\<close>

definition allNumericOptions :: CloudinaryTransforms where
  "allNumericOptions =
     emptyTransforms
       \<lparr>width := Some (Fin 600), height := Some (Fin 600),
        quality := Some (QNumber (Fin 600)), dpr := Some (DprNumber (Fin 600)),
        brightness := Some (Fin 600), contrast := Some (Fin 600),
        saturation := Some (Fin 600), gamma := Some (Fin 600), vibrance := Some (Fin 600),
        hue := Some (Fin 600), opacity := Some (Fin 600), blur := Some (Fin 600),
        sharpen := Some (Fin 600), sepia := Some (Fin 600), oilPaint := Some (Fin 600),
        vignette := Some (VignetteNumber (Fin 600)), pixelate := Some (Fin 600),
        angle := Some (Fin 600)\<rparr>"

text \<open>The same four single-field steps in two orders.\<close>

definition stepsA :: "CloudinaryTransforms list" where
  "stepsA =
     [emptyTransforms\<lparr>width := Some (Fin 300)\<rparr>, emptyTransforms\<lparr>height := Some (Fin 200)\<rparr>,
      emptyTransforms\<lparr>crop := Some Fill\<rparr>, emptyTransforms\<lparr>quality := Some QAutoGood\<rparr>]"

definition stepsB :: "CloudinaryTransforms list" where
  "stepsB =
     [emptyTransforms\<lparr>quality := Some QAutoGood\<rparr>, emptyTransforms\<lparr>width := Some (Fin 300)\<rparr>,
      emptyTransforms\<lparr>crop := Some Fill\<rparr>, emptyTransforms\<lparr>height := Some (Fin 200)\<rparr>]"

section \<open>Properties\<close>

subsection \<open>The token sequence\<close>

text \<open>Each guarded push appends the tokens of its field to what was pushed before.\<close>

lemma pushIf_tokenOf: "pushIf field guard token parts = parts @ tokenOf field guard token"
  by (simp add: pushIf_def tokenOf_def split: option.split)

lemma pushFormat_formatTokens: "pushFormat t parts = parts @ formatTokens t"
  by (simp add: pushFormat_def formatTokens_def pushIf_def Let_def split: option.split)

lemma transformParts_tokens:
  "transformParts t =
     tokenOf (width t) truthyNumber (\<lambda>v. ''w_'' @ numToString v) @
     tokenOf (height t) truthyNumber (\<lambda>v. ''h_'' @ numToString v) @
     tokenOf (aspectRatio t) truthyString (\<lambda>v. ''ar_'' @ v) @
     tokenOf (dpr t) truthyDpr (\<lambda>v. ''dpr_'' @ dprToString v) @
     tokenOf (crop t) (\<lambda>v. truthyString (cropToString v)) (\<lambda>v. ''c_'' @ cropToString v) @
     tokenOf (gravity t) (\<lambda>v. truthyString (gravityToString v)) (\<lambda>v. ''g_'' @ gravityToString v) @
     tokenOf (quality t) truthyQuality (\<lambda>v. ''q_'' @ qualityToString v) @
     formatTokens t @
     tokenOf (brightness t) notUndefined (\<lambda>v. ''e_brightness:'' @ numToString v) @
     tokenOf (contrast t) notUndefined (\<lambda>v. ''e_contrast:'' @ numToString v) @
     tokenOf (saturation t) notUndefined (\<lambda>v. ''e_saturation:'' @ numToString v) @
     tokenOf (gamma t) notUndefined (\<lambda>v. ''e_gamma:'' @ numToString v) @
     tokenOf (vibrance t) notUndefined (\<lambda>v. ''e_vibrance:'' @ numToString v) @
     tokenOf (hue t) notUndefined (\<lambda>v. ''e_hue:'' @ numToString v) @
     tokenOf (opacity t) notUndefined (\<lambda>v. ''o_'' @ numToString v) @
     tokenOf (blur t) truthyNumber (\<lambda>v. ''e_blur:'' @ numToString v) @
     tokenOf (sharpen t) truthyNumber (\<lambda>v. ''e_sharpen:'' @ numToString v) @
     tokenOf (unsharpMask t) truthyString (\<lambda>v. ''e_unsharp_mask:'' @ v) @
     tokenOf (sepia t) truthyNumber (\<lambda>v. ''e_sepia:'' @ numToString v) @
     tokenOf (grayscale t) truthyBool (\<lambda>v. ''e_grayscale'') @
     tokenOf (blackwhite t) truthyString (\<lambda>v. ''e_blackwhite:'' @ v) @
     tokenOf (negate t) truthyBool (\<lambda>v. ''e_negate'') @
     tokenOf (oilPaint t) truthyNumber (\<lambda>v. ''e_oil_paint:'' @ numToString v) @
     tokenOf (vignette t) truthyVignette (\<lambda>v. ''e_vignette:'' @ vignetteToString v) @
     tokenOf (pixelate t) truthyNumber (\<lambda>v. ''e_pixelate:'' @ numToString v) @
     tokenOf (border t) truthyString (\<lambda>v. ''bo_'' @ v) @
     tokenOf (background t) truthyString (\<lambda>v. ''b_'' @ v) @
     tokenOf (angle t) truthyNumber (\<lambda>v. ''a_'' @ numToString v) @
     tokenOf (progressive t) truthyBool (\<lambda>v. ''fl_progressive'') @
     tokenOf (immutableCache t) truthyBool (\<lambda>v. ''fl_immutable_cache'') @
     tokenOf (stripProfile t) truthyBool (\<lambda>v. ''fl_strip_profile'') @
     tokenOf (customTransform t) truthyString (\<lambda>v. v)"
proof -
  have vig: "(\<lambda>v. ''e_vignette'' @ (case v of VignetteNumber n \<Rightarrow> '':'' @ numToString n
                        | VignetteString s \<Rightarrow> '':'' @ s)) = (\<lambda>v. ''e_vignette:'' @ vignetteToString v)"
    by (rule ext) (simp split: vignette_value.split)
  show ?thesis
    unfolding transformParts_def Let_def vig
    by (simp only: pushIf_tokenOf pushFormat_formatTokens append_Nil append_assoc)
qed

lemma sublist_join: "tok \<in> set parts \<Longrightarrow> sublist tok (join sep parts)"
proof (induction sep parts rule: join.induct)
  case (1 sep)
  then show ?case by simp
next
  case (2 sep x)
  then show ?case by simp
next
  case (3 sep x y ys)
  show ?case
  proof (cases "tok = x")
    case True
    then show ?thesis by (simp add: sublist_append_rightI)
  next
    case False
    with 3 have "sublist tok (join sep (y # ys))" by simp
    then obtain ps ss where "join sep (y # ys) = ps @ tok @ ss"
      by (auto simp: sublist_def)
    then have "join sep (x # y # ys) = (x @ sep @ ps) @ tok @ ss" by simp
    then show ?thesis unfolding sublist_def by blast
  qed
qed

lemma token_in_url:
  assumes "tok \<in> set (transformParts t)"
  shows "sublist tok (buildCloudinaryUrl env publicId t)"
proof -
  from assms have ne: "transformParts t \<noteq> []" by auto
  from assms have "sublist tok (join '','' (transformParts t))" by (rule sublist_join)
  then obtain ps ss where "join '','' (transformParts t) = ps @ tok @ ss"
    by (auto simp: sublist_def)
  then have "buildCloudinaryUrl env publicId t =
      (''https://res.cloudinary.com/'' @ getCloudName env @ ''/image/upload/'' @ ps) @ tok @ (ss @ ''/'' @ publicId)"
    using ne by (simp add: buildCloudinaryUrl_def)
  then show ?thesis unfolding sublist_def by blast
qed

lemma truthy_cropToString [simp]: "truthyString (cropToString v)"
  by (cases v) (simp_all add: truthyString_def)

lemma truthy_gravityToString [simp]: "truthyString (gravityToString v)"
  by (cases v) (simp_all add: truthyString_def)

lemma truthy_formatToString [simp]: "truthyString (formatToString v)"
  by (cases v) (simp_all add: truthyString_def)

lemma truthy_fetchFormatToString [simp]: "truthyString (fetchFormatToString v)"
  by (cases v) (simp_all add: truthyString_def)

lemma formatTokens_eq:
  "formatTokens t =
     (case fetchFormat t of
        Some ff \<Rightarrow> [''f_'' @ fetchFormatToString ff]
      | None \<Rightarrow> (case format t of Some f \<Rightarrow> [''f_'' @ formatToString f] | None \<Rightarrow> []))"
  by (simp add: formatTokens_def pushFormat_def pushIf_def Let_def split: option.split)

lemma transformParts_empty: "transformParts emptyTransforms = []"
  by (simp add: transformParts_def emptyTransforms_def pushIf_def pushFormat_def)

lemma getCloudName_unsetEnv: "getCloudName unsetEnv = ''demo''"
  by (simp add: getCloudName_def unsetEnv_def orDemo_def)

lemma getCloudName_portEnv: "getCloudName portEnv = ''pourtheport''"
  by (simp add: getCloudName_def portEnv_def orDemo_def truthyString_def)

subsection \<open>Evaluating number-to-string conversion\<close>

lemma numToString_values:
  "numToString (Fin 0) = ''0''"
  "numToString (Fin 50) = ''50''"
  "numToString (Fin 200) = ''200''"
  "numToString (Fin 300) = ''300''"
  "numToString (Fin 400) = ''400''"
  "numToString (Fin 600) = ''600''"
  "numToString (Fin 800) = ''800''"
  "numToString (Fin 1200) = ''1200''"
  "numToString (Fin 1600) = ''1600''"
  "numToString (Fin 1800) = ''1800''"
  "numToString (Fin 2400) = ''2400''"
  "numToString (Fin 3200) = ''3200''"
  by code_simp+

lemma numToString_50: "numToString (Fin 50) = ''50''" by (rule numToString_values)
lemma numToString_400: "numToString (Fin 400) = ''400''" by (rule numToString_values)
lemma numToString_600: "numToString (Fin 600) = ''600''" by (rule numToString_values)
lemma numToString_800: "numToString (Fin 800) = ''800''" by (rule numToString_values)
lemma numToString_1200: "numToString (Fin 1200) = ''1200''" by (rule numToString_values)
lemma numToString_1600: "numToString (Fin 1600) = ''1600''" by (rule numToString_values)
lemma numToString_1800: "numToString (Fin 1800) = ''1800''" by (rule numToString_values)
lemma numToString_2400: "numToString (Fin 2400) = ''2400''" by (rule numToString_values)
lemma numToString_3200: "numToString (Fin 3200) = ''3200''" by (rule numToString_values)

text \<open>Fractions, exponent notation, and integers beyond the exactly printed range.\<close>

lemma numToString_notations:
  "numToString (Fin (3 / 2)) = ''1.5''"
  "numToString (Fin (1 / 10)) = ''0.1''"
  "numToString (Fin (- 5)) = ''-5''"
  "numToString (Fin (1 / 2 ^ 20)) = ''9.5367431640625e-7''"
  "numToString (Fin (1 + 1 / 2 ^ 30)) = ''1.0000000009313226''"
  "numToString (Fin (10 ^ 21)) = ''1e+21''"
  "numToString (Fin 999999999999999868928) = ''999999999999999900000''"
  by code_simp+

lemmas tokenEval =
  transformParts_tokens tokenOf_def formatTokens_eq emptyTransforms_def truthyString_def
  truthyBool_def notUndefined_def

subsection \<open>The builder without options, and on the empty identifier\<close>

text \<open>
  C1. With the empty options record the builder returns the service root, the account,
  \<^verbatim>\<open>/image/upload/\<close> and the identifier, for every identifier and every environment:
  there is no transform segment, and exactly one slash stands between \<^verbatim>\<open>upload\<close> and
  the identifier.
\<close>

theorem buildCloudinaryUrl_no_options:
  "buildCloudinaryUrl env publicId emptyTransforms =
     ''https://res.cloudinary.com/'' @ getCloudName env @ ''/image/upload/'' @ publicId"
  by (simp add: buildCloudinaryUrl_def transformParts_empty)

text \<open>
  C8. The builder has no failing branch: it is a total function to strings, and every
  result is the root, a slash, the transform segment (empty without tokens, otherwise the
  comma-joined tokens and a slash) and the identifier. On the empty identifier with empty
  options the result is the root followed by a slash, an empty last path segment.
\<close>

theorem buildCloudinaryUrl_never_fails:
  "buildCloudinaryUrl env publicId t =
     uploadRoot env @ ''/'' @
       (if transformParts t = [] then [] else join '','' (transformParts t) @ ''/'') @ publicId
   \<and> buildCloudinaryUrl env [] emptyTransforms =
     ''https://res.cloudinary.com/'' @ getCloudName env @ ''/image/upload/''"
  by (simp add: buildCloudinaryUrl_def transformParts_empty uploadRoot_def)

subsection \<open>The worked example\<close>

lemma transformParts_shoes:
  "transformParts
     (emptyTransforms
        \<lparr>width := Some (Fin 300), height := Some (Fin 200), crop := Some Fill,
         quality := Some QAutoGood\<rparr>) =
   [''w_300'', ''h_200'', ''c_fill'', ''q_auto:good'']"
  by (simp add: tokenEval numToString_values del: numToString.simps)

text \<open>
  C2. For the identifier \<^verbatim>\<open>shoes/red\<close> with width 300, height 200, crop \<^verbatim>\<open>fill\<close> and
  quality \<^verbatim>\<open>auto:good\<close> the builder returns the root, then
  \<^verbatim>\<open>/w_300,h_200,c_fill,q_auto:good\<close>, then \<^verbatim>\<open>/shoes/red\<close>.
\<close>

theorem buildCloudinaryUrl_shoes_red:
  "buildCloudinaryUrl env ''shoes/red''
     (emptyTransforms
        \<lparr>width := Some (Fin 300), height := Some (Fin 200), crop := Some Fill,
         quality := Some QAutoGood\<rparr>) =
   ''https://res.cloudinary.com/'' @ getCloudName env @
     ''/image/upload/w_300,h_200,c_fill,q_auto:good/shoes/red''"
  by (simp add: buildCloudinaryUrl_def transformParts_shoes)

subsection \<open>The placeholder\<close>

lemma transformParts_placeholder:
  "transformParts
     (emptyTransforms
        \<lparr>width := Some (Fin 50), quality := Some QAutoLow, blur := Some (Fin 400),
         fetchFormat := Some FFAuto\<rparr>) =
   [''w_50'', ''q_auto:low'', ''f_auto'', ''e_blur:400'']"
  by (simp add: tokenEval numToString_values del: numToString.simps)

lemma getPlaceholderUrl_eq:
  "getPlaceholderUrl env publicId =
     ''https://res.cloudinary.com/'' @ getCloudName env @
       ''/image/upload/w_50,q_auto:low,f_auto,e_blur:400/'' @ publicId"
  by (simp add: getPlaceholderUrl_def buildCloudinaryUrl_def transformParts_placeholder)

lemma placeholder_width_token:
  "''w_'' @ numToString (Fin 50) \<in> set (transformParts
     (emptyTransforms
        \<lparr>width := Some (Fin 50), quality := Some QAutoLow, blur := Some (Fin 400),
         fetchFormat := Some FFAuto\<rparr>))"
  unfolding transformParts_placeholder numToString_50 by simp

lemma placeholder_blur_token:
  "''e_blur:'' @ numToString (Fin 400) \<in> set (transformParts
     (emptyTransforms
        \<lparr>width := Some (Fin 50), quality := Some QAutoLow, blur := Some (Fin 400),
         fetchFormat := Some FFAuto\<rparr>))"
  unfolding transformParts_placeholder numToString_400 by simp

text \<open>
  C5. For every identifier the placeholder URL is the root followed by the segment
  \<^verbatim>\<open>w_50,q_auto:low,f_auto,e_blur:400\<close> and the identifier: it contains a width token
  whose value, 50, is at most 50, and a blur token.
\<close>

theorem getPlaceholderUrl_tokens:
  "getPlaceholderUrl env publicId =
     ''https://res.cloudinary.com/'' @ getCloudName env @
       ''/image/upload/w_50,q_auto:low,f_auto,e_blur:400/'' @ publicId
   \<and> (\<exists>n. n \<le> 50 \<and> sublist (''w_'' @ numToString (Fin n)) (getPlaceholderUrl env publicId))
   \<and> (\<exists>b. sublist (''e_blur:'' @ numToString (Fin b)) (getPlaceholderUrl env publicId))"
proof (intro conjI)
  show "getPlaceholderUrl env publicId =
     ''https://res.cloudinary.com/'' @ getCloudName env @
       ''/image/upload/w_50,q_auto:low,f_auto,e_blur:400/'' @ publicId"
    by (rule getPlaceholderUrl_eq)
next
  have "sublist (''w_'' @ numToString (Fin 50)) (getPlaceholderUrl env publicId)"
    unfolding getPlaceholderUrl_def by (rule token_in_url [OF placeholder_width_token])
  moreover have "(50::rat) \<le> 50" by simp
  ultimately show
    "\<exists>n. n \<le> 50 \<and> sublist (''w_'' @ numToString (Fin n)) (getPlaceholderUrl env publicId)"
    by (rule_tac x = 50 in exI) (rule conjI)
next
  have "sublist (''e_blur:'' @ numToString (Fin 400)) (getPlaceholderUrl env publicId)"
    unfolding getPlaceholderUrl_def by (rule token_in_url [OF placeholder_blur_token])
  then show "\<exists>b. sublist (''e_blur:'' @ numToString (Fin b)) (getPlaceholderUrl env publicId)"
    by (rule exI)
qed

subsection \<open>The responsive set\<close>

lemma orElse_crop:
  "orElse (crop base) (\<lambda>v. truthyString (cropToString v)) Fill =
     (case crop base of None \<Rightarrow> Fill | Some c \<Rightarrow> c)"
  by (simp add: orElse_def split: option.split)

lemma truthyQuality_iff:
  "truthyQuality q \<longleftrightarrow> q \<noteq> QNumber (Fin 0) \<and> q \<noteq> QNumber NaN"
proof (cases q)
  case (QNumber n)
  then show ?thesis by (cases n) auto
qed simp_all

lemma orElse_quality:
  "orElse (quality base) truthyQuality QAuto =
     (case quality base of
        None \<Rightarrow> QAuto
      | Some q \<Rightarrow> if q = QNumber (Fin 0) \<or> q = QNumber NaN then QAuto else q)"
proof (cases "quality base")
  case None
  then show ?thesis by (simp add: orElse_def)
next
  case (Some q)
  have "(if truthyQuality q then q else QAuto) =
        (if q = QNumber (Fin 0) \<or> q = QNumber NaN then QAuto else q)"
    using truthyQuality_iff [of q] by (simp split: if_splits)
  with Some show ?thesis by (simp add: orElse_def)
qed

lemma responsiveSrcsetEntries_eq:
  "responsiveSrcsetEntries env publicId base =
     [buildCloudinaryUrl env publicId (responsiveOptions base 400) @ '' 400w'',
      buildCloudinaryUrl env publicId (responsiveOptions base 800) @ '' 800w'',
      buildCloudinaryUrl env publicId (responsiveOptions base 1200) @ '' 1200w'',
      buildCloudinaryUrl env publicId (responsiveOptions base 1600) @ '' 1600w'']"
  by (simp add: responsiveSrcsetEntries_def responsiveEntry_def objectValues_def
      RESPONSIVE_BREAKPOINTS_def numToString_400 numToString_800 numToString_1200
      numToString_1600 del: numToString.simps)

text \<open>
  C6, as the code has it. The responsive set has exactly four entries, for the widths
  400, 800, 1200 and 1600 in this order, each the builder's URL for the base options with
  the width overridden, followed by the width descriptor; the srcset joins them. The crop
  mode is defaulted to \<^verbatim>\<open>fill\<close> exactly when it is unset. The quality is defaulted to
  \<^verbatim>\<open>auto\<close> when it is unset and also when it is set to a falsy number (\<open>0\<close> or NaN),
  since the default is taken with \<^verbatim>\<open>||\<close>. The format is set to \<^verbatim>\<open>webp\<close>.
\<close>

theorem responsive_set_four_entries:
  "responsiveSrcsetEntries env publicId base =
     [buildCloudinaryUrl env publicId (responsiveOptions base 400) @ '' 400w'',
      buildCloudinaryUrl env publicId (responsiveOptions base 800) @ '' 800w'',
      buildCloudinaryUrl env publicId (responsiveOptions base 1200) @ '' 1200w'',
      buildCloudinaryUrl env publicId (responsiveOptions base 1600) @ '' 1600w'']
   \<and> srcset (getCloudinaryResponsiveSet env publicId base) =
       join '', '' (responsiveSrcsetEntries env publicId base)
   \<and> responsiveOptions base w =
       base\<lparr>width := Some (Fin w),
            crop := Some (case crop base of None \<Rightarrow> Fill | Some c \<Rightarrow> c),
            quality := Some (case quality base of
                               None \<Rightarrow> QAuto
                             | Some q \<Rightarrow>
                                 if q = QNumber (Fin 0) \<or> q = QNumber NaN then QAuto else q),
            format := Some FWebp\<rparr>"
proof (intro conjI)
  show "responsiveSrcsetEntries env publicId base =
     [buildCloudinaryUrl env publicId (responsiveOptions base 400) @ '' 400w'',
      buildCloudinaryUrl env publicId (responsiveOptions base 800) @ '' 800w'',
      buildCloudinaryUrl env publicId (responsiveOptions base 1200) @ '' 1200w'',
      buildCloudinaryUrl env publicId (responsiveOptions base 1600) @ '' 1600w'']"
    by (rule responsiveSrcsetEntries_eq)
next
  show "srcset (getCloudinaryResponsiveSet env publicId base) =
       join '', '' (responsiveSrcsetEntries env publicId base)"
    by (simp add: getCloudinaryResponsiveSet_def)
next
  show "responsiveOptions base w =
       base\<lparr>width := Some (Fin w),
            crop := Some (case crop base of None \<Rightarrow> Fill | Some c \<Rightarrow> c),
            quality := Some (case quality base of
                               None \<Rightarrow> QAuto
                             | Some q \<Rightarrow>
                                 if q = QNumber (Fin 0) \<or> q = QNumber NaN then QAuto else q),
            format := Some FWebp\<rparr>"
    unfolding responsiveOptions_def orElse_crop orElse_quality ..
qed

lemma zero_quality_parts:
  "transformParts (responsiveOptions (emptyTransforms\<lparr>quality := Some (QNumber (Fin 0))\<rparr>) w) =
     [''w_'' @ numToString (Fin w), ''c_fill'', ''q_auto'', ''f_webp'']" if "w \<noteq> 0"
  using that by (simp add: responsiveOptions_def orElse_def tokenEval del: numToString.simps)

text \<open>
  C6 as stated fails where the base options set the quality to the number 0: the quality
  is set, yet every entry is built with the default \<^verbatim>\<open>auto\<close>.
\<close>

theorem responsive_set_zero_quality:
  "quality (emptyTransforms\<lparr>quality := Some (QNumber (Fin 0))\<rparr>) = Some (QNumber (Fin 0))
   \<and> quality (responsiveOptions (emptyTransforms\<lparr>quality := Some (QNumber (Fin 0))\<rparr>) 400) =
       Some QAuto
   \<and> responsiveSrcsetEntries unsetEnv ''a''
       (emptyTransforms\<lparr>quality := Some (QNumber (Fin 0))\<rparr>) =
     [''https://res.cloudinary.com/demo/image/upload/w_400,c_fill,q_auto,f_webp/a 400w'',
      ''https://res.cloudinary.com/demo/image/upload/w_800,c_fill,q_auto,f_webp/a 800w'',
      ''https://res.cloudinary.com/demo/image/upload/w_1200,c_fill,q_auto,f_webp/a 1200w'',
      ''https://res.cloudinary.com/demo/image/upload/w_1600,c_fill,q_auto,f_webp/a 1600w'']"
proof (intro conjI)
  show "quality (emptyTransforms\<lparr>quality := Some (QNumber (Fin 0))\<rparr>) = Some (QNumber (Fin 0))"
    by simp
next
  show "quality (responsiveOptions (emptyTransforms\<lparr>quality := Some (QNumber (Fin 0))\<rparr>) 400) =
       Some QAuto"
    by (simp add: responsiveOptions_def orElse_def)
next
  show "responsiveSrcsetEntries unsetEnv ''a''
       (emptyTransforms\<lparr>quality := Some (QNumber (Fin 0))\<rparr>) =
     [''https://res.cloudinary.com/demo/image/upload/w_400,c_fill,q_auto,f_webp/a 400w'',
      ''https://res.cloudinary.com/demo/image/upload/w_800,c_fill,q_auto,f_webp/a 800w'',
      ''https://res.cloudinary.com/demo/image/upload/w_1200,c_fill,q_auto,f_webp/a 1200w'',
      ''https://res.cloudinary.com/demo/image/upload/w_1600,c_fill,q_auto,f_webp/a 1600w'']"
    unfolding responsiveSrcsetEntries_eq
    by (simp add: buildCloudinaryUrl_def zero_quality_parts getCloudName_unsetEnv
        numToString_400 numToString_800 numToString_1200 numToString_1600
        del: numToString.simps)
qed

subsection \<open>The srcset with device pixel ratios\<close>

lemma dprSrcsetEntries_eq:
  "dprSrcsetEntries env publicId base True =
     [dprEntry env publicId base 400 1, dprEntry env publicId base 400 (3 / 2),
      dprEntry env publicId base 400 2,
      dprEntry env publicId base 800 1, dprEntry env publicId base 800 (3 / 2),
      dprEntry env publicId base 800 2,
      dprEntry env publicId base 1200 1, dprEntry env publicId base 1200 (3 / 2),
      dprEntry env publicId base 1200 2,
      dprEntry env publicId base 1600 1, dprEntry env publicId base 1600 (3 / 2),
      dprEntry env publicId base 1600 2]"
  by (simp add: dprSrcsetEntries_def dprValues_def objectValues_def RESPONSIVE_BREAKPOINTS_def)

lemma dprEntry_eq:
  "dprEntry env publicId base w d =
     buildCloudinaryUrl env publicId (dprOptions base w d) @ '' '' @
       numToString (Fin (if d = 1 then w else w * d)) @ ''w''"
  by (simp add: dprEntry_def Let_def)

lemma dprEntry_descriptors:
  "map (\<lambda>(w, d). numToString (Fin (if d = 1 then w else w * d)) @ ''w'')
     [(400, 1), (400, 3 / 2), (400, 2), (800, 1), (800, 3 / 2), (800, 2),
      (1200, 1), (1200, 3 / 2), (1200, 2), (1600, 1), (1600, 3 / 2), (1600, 2 :: rat)] =
   [''400w'', ''600w'', ''800w'', ''800w'', ''1200w'', ''1600w'',
    ''1200w'', ''1800w'', ''2400w'', ''1600w'', ''2400w'', ''3200w'']"
  by (simp add: numToString_values del: numToString.simps)

text \<open>
  C7. With DPR support enabled the entries are the four breakpoint widths crossed with
  the ratios 1, 1.5 and 2, twelve entries with the breakpoints outermost. Each entry is
  the builder's URL for that width and ratio followed by a width descriptor, which is the
  tier width for ratio 1 and the tier width times the ratio otherwise (600w, 800w for the
  tier 400, and so on).
\<close>

theorem dpr_srcset_cross_product:
  "dprValues True = [1, 3 / 2, 2]
   \<and> dprSrcsetEntries env publicId base True =
     [buildCloudinaryUrl env publicId (dprOptions base 400 1) @ '' 400w'',
      buildCloudinaryUrl env publicId (dprOptions base 400 (3 / 2)) @ '' 600w'',
      buildCloudinaryUrl env publicId (dprOptions base 400 2) @ '' 800w'',
      buildCloudinaryUrl env publicId (dprOptions base 800 1) @ '' 800w'',
      buildCloudinaryUrl env publicId (dprOptions base 800 (3 / 2)) @ '' 1200w'',
      buildCloudinaryUrl env publicId (dprOptions base 800 2) @ '' 1600w'',
      buildCloudinaryUrl env publicId (dprOptions base 1200 1) @ '' 1200w'',
      buildCloudinaryUrl env publicId (dprOptions base 1200 (3 / 2)) @ '' 1800w'',
      buildCloudinaryUrl env publicId (dprOptions base 1200 2) @ '' 2400w'',
      buildCloudinaryUrl env publicId (dprOptions base 1600 1) @ '' 1600w'',
      buildCloudinaryUrl env publicId (dprOptions base 1600 (3 / 2)) @ '' 2400w'',
      buildCloudinaryUrl env publicId (dprOptions base 1600 2) @ '' 3200w'']
   \<and> length (dprSrcsetEntries env publicId base True) =
       length (objectValues RESPONSIVE_BREAKPOINTS) * length (dprValues True)
   \<and> dprEntry env publicId base w d =
       buildCloudinaryUrl env publicId (dprOptions base w d) @ '' '' @
         numToString (Fin (if d = 1 then w else w * d)) @ ''w''
   \<and> width (dprOptions base w d) = Some (Fin w)
   \<and> dpr (dprOptions base w d) = Some (DprNumber (Fin d))
   \<and> srcset (getCloudinaryDprSrcset env publicId base True) =
       join '', '' (dprSrcsetEntries env publicId base True)"
proof (intro conjI)
  show "dprValues True = [1, 3 / 2, 2]"
    by (simp add: dprValues_def)
next
  show "dprSrcsetEntries env publicId base True =
     [buildCloudinaryUrl env publicId (dprOptions base 400 1) @ '' 400w'',
      buildCloudinaryUrl env publicId (dprOptions base 400 (3 / 2)) @ '' 600w'',
      buildCloudinaryUrl env publicId (dprOptions base 400 2) @ '' 800w'',
      buildCloudinaryUrl env publicId (dprOptions base 800 1) @ '' 800w'',
      buildCloudinaryUrl env publicId (dprOptions base 800 (3 / 2)) @ '' 1200w'',
      buildCloudinaryUrl env publicId (dprOptions base 800 2) @ '' 1600w'',
      buildCloudinaryUrl env publicId (dprOptions base 1200 1) @ '' 1200w'',
      buildCloudinaryUrl env publicId (dprOptions base 1200 (3 / 2)) @ '' 1800w'',
      buildCloudinaryUrl env publicId (dprOptions base 1200 2) @ '' 2400w'',
      buildCloudinaryUrl env publicId (dprOptions base 1600 1) @ '' 1600w'',
      buildCloudinaryUrl env publicId (dprOptions base 1600 (3 / 2)) @ '' 2400w'',
      buildCloudinaryUrl env publicId (dprOptions base 1600 2) @ '' 3200w'']"
    unfolding dprSrcsetEntries_eq dprEntry_eq
    by (simp add: numToString_values del: numToString.simps)
next
  show "length (dprSrcsetEntries env publicId base True) =
       length (objectValues RESPONSIVE_BREAKPOINTS) * length (dprValues True)"
    unfolding dprSrcsetEntries_eq
    by (simp add: objectValues_def RESPONSIVE_BREAKPOINTS_def dprValues_def)
next
  show "dprEntry env publicId base w d =
       buildCloudinaryUrl env publicId (dprOptions base w d) @ '' '' @
         numToString (Fin (if d = 1 then w else w * d)) @ ''w''"
    by (rule dprEntry_eq)
next
  show "width (dprOptions base w d) = Some (Fin w)"
    by (simp add: dprOptions_def)
next
  show "dpr (dprOptions base w d) = Some (DprNumber (Fin d))"
    by (simp add: dprOptions_def)
next
  show "srcset (getCloudinaryDprSrcset env publicId base True) =
       join '', '' (dprSrcsetEntries env publicId base True)"
    by (simp add: getCloudinaryDprSrcset_def)
qed

subsection \<open>Determinism and the order of construction\<close>

lemma override_commute:
  "a = None \<or> b = None \<Longrightarrow> override (override x a) b = override (override x b) a"
  by (auto simp: override_def split: option.splits)

lemma spread_sel:
  "width (spread a b) = override (width a) (width b)"
  "height (spread a b) = override (height a) (height b)"
  "aspectRatio (spread a b) = override (aspectRatio a) (aspectRatio b)"
  "crop (spread a b) = override (crop a) (crop b)"
  "gravity (spread a b) = override (gravity a) (gravity b)"
  "quality (spread a b) = override (quality a) (quality b)"
  "format (spread a b) = override (format a) (format b)"
  "fetchFormat (spread a b) = override (fetchFormat a) (fetchFormat b)"
  "dpr (spread a b) = override (dpr a) (dpr b)"
  "brightness (spread a b) = override (brightness a) (brightness b)"
  "contrast (spread a b) = override (contrast a) (contrast b)"
  "saturation (spread a b) = override (saturation a) (saturation b)"
  "gamma (spread a b) = override (gamma a) (gamma b)"
  "vibrance (spread a b) = override (vibrance a) (vibrance b)"
  "hue (spread a b) = override (hue a) (hue b)"
  "opacity (spread a b) = override (opacity a) (opacity b)"
  "blur (spread a b) = override (blur a) (blur b)"
  "sharpen (spread a b) = override (sharpen a) (sharpen b)"
  "unsharpMask (spread a b) = override (unsharpMask a) (unsharpMask b)"
  "sepia (spread a b) = override (sepia a) (sepia b)"
  "grayscale (spread a b) = override (grayscale a) (grayscale b)"
  "blackwhite (spread a b) = override (blackwhite a) (blackwhite b)"
  "negate (spread a b) = override (negate a) (negate b)"
  "oilPaint (spread a b) = override (oilPaint a) (oilPaint b)"
  "vignette (spread a b) = override (vignette a) (vignette b)"
  "pixelate (spread a b) = override (pixelate a) (pixelate b)"
  "border (spread a b) = override (border a) (border b)"
  "background (spread a b) = override (background a) (background b)"
  "angle (spread a b) = override (angle a) (angle b)"
  "progressive (spread a b) = override (progressive a) (progressive b)"
  "immutableCache (spread a b) = override (immutableCache a) (immutableCache b)"
  "stripProfile (spread a b) = override (stripProfile a) (stripProfile b)"
  "customTransform (spread a b) = override (customTransform a) (customTransform b)"
  by (simp_all add: spread_def)

lemma spread_commute:
  assumes "disjointFields p q"
  shows "spread (spread t p) q = spread (spread t q) p"
proof -
  note d = assms [unfolded disjointFields_def]
  show ?thesis
    by (rule CloudinaryTransforms.equality; simp add: spread_sel; rule override_commute;
        simp add: d)
qed

lemma construct_permuted:
  assumes "pairwise disjointFields (set steps)" and "mset steps' = mset steps"
  shows "construct steps' = construct steps"
proof -
  let ?f = "\<lambda>step built. spread built step"
  have "?f x \<circ> ?f y = ?f y \<circ> ?f x" if "x \<in> set steps" "y \<in> set steps" for x y
  proof (cases "x = y")
    case True
    then show ?thesis by simp
  next
    case False
    with that assms(1) have "disjointFields y x"
      by (auto simp: pairwise_def)
    then show ?thesis by (auto simp: fun_eq_iff spread_commute)
  qed
  then have "fold ?f steps = fold ?f steps'"
    using assms(2) by (intro fold_multiset_equiv) simp_all
  from this [symmetric] show ?thesis
    unfolding construct_def by (rule fun_cong)
qed

text \<open>
  C4. The builder is a function of the environment, the identifier and the options
  record, so equal arguments give the same string. The order in which the fields of the
  record were set does not matter either: when the construction steps set pairwise
  disjoint fields, any rearrangement of the steps constructs the same record and thus
  yields the same URL.
\<close>

theorem buildCloudinaryUrl_deterministic:
  "(env' = env \<and> publicId' = publicId \<and> t' = t \<longrightarrow>
      buildCloudinaryUrl env' publicId' t' = buildCloudinaryUrl env publicId t)
   \<and> (pairwise disjointFields (set steps) \<and> mset steps' = mset steps \<longrightarrow>
      construct steps' = construct steps \<and>
      buildCloudinaryUrl env publicId (construct steps') =
        buildCloudinaryUrl env publicId (construct steps))"
proof (intro conjI impI)
  assume "env' = env \<and> publicId' = publicId \<and> t' = t"
  then show "buildCloudinaryUrl env' publicId' t' = buildCloudinaryUrl env publicId t"
    by simp
next
  assume a: "pairwise disjointFields (set steps) \<and> mset steps' = mset steps"
  then show c: "construct steps' = construct steps"
    by (intro construct_permuted) simp_all
  then show "buildCloudinaryUrl env publicId (construct steps') =
        buildCloudinaryUrl env publicId (construct steps)"
    by (rule arg_cong)
qed

lemma construct_stepsA:
  "construct stepsA =
      emptyTransforms
        \<lparr>width := Some (Fin 300), height := Some (Fin 200), crop := Some Fill,
         quality := Some QAutoGood\<rparr>"
  by (simp add: construct_def stepsA_def spread_def override_def emptyTransforms_def)

lemma pairwise_stepsA: "pairwise disjointFields (set stepsA)"
  by (auto simp: stepsA_def pairwise_def disjointFields_def emptyTransforms_def)

lemma mset_stepsB: "mset stepsB = mset stepsA"
  by (simp add: stepsA_def stepsB_def)

text \<open>Witness for C4: the worked example built in two orders, under a configured account.\<close>

theorem buildCloudinaryUrl_deterministic_witness:
  "buildCloudinaryUrl portEnv ''shoes/red'' (construct stepsB) =
     buildCloudinaryUrl portEnv ''shoes/red'' (construct stepsA)
   \<and> buildCloudinaryUrl portEnv ''shoes/red'' (construct stepsA) =
   ''https://res.cloudinary.com/pourtheport/image/upload/w_300,h_200,c_fill,q_auto:good/shoes/red''"
proof -
  have u: "buildCloudinaryUrl portEnv ''shoes/red'' (construct stepsA) =
   ''https://res.cloudinary.com/pourtheport/image/upload/w_300,h_200,c_fill,q_auto:good/shoes/red''"
    unfolding construct_stepsA
    by (simp add: buildCloudinaryUrl_def transformParts_shoes getCloudName_portEnv)
  from buildCloudinaryUrl_deterministic
      [of portEnv portEnv "''shoes/red''" "''shoes/red''" emptyTransforms emptyTransforms
        stepsA stepsB]
    pairwise_stepsA mset_stepsB
  have "buildCloudinaryUrl portEnv ''shoes/red'' (construct stepsB) =
     buildCloudinaryUrl portEnv ''shoes/red'' (construct stepsA)"
    by blast
  with u show ?thesis by (rule_tac conjI)
qed

subsection \<open>Numeric fields\<close>

text \<open>
  A value far outside the documented range of a width is passed on as the template
  literal prints it, here in exponent notation.
\<close>

lemma width_tiny_token:
  assumes "width t = Some (Fin (1 / 2 ^ 20))"
  shows "''w_9.5367431640625e-7'' \<in> set (transformParts t)"
proof -
  have "truthyNumber (Fin (1 / 2 ^ 20))" by simp
  with assms have "''w_'' @ numToString (Fin (1 / 2 ^ 20)) \<in> set (transformParts t)"
    by (simp add: transformParts_tokens tokenOf_def del: numToString.simps truthyNumber.simps)
  then show ?thesis
    by (simp only: numToString_notations append_Cons append_Nil)
qed

text \<open>
  C3, as the code has it. A populated numeric field whose guard is a truthiness test
  (width, height, dpr, quality, blur, sharpen, sepia, oilPaint, vignette, pixelate, angle)
  contributes its token, with the value converted to a string as it is (by the
  Number-to-string conversion of the template literal), whenever the
  value is truthy, that is neither zero nor NaN. A populated field whose guard is the
  comparison with \<^verbatim>\<open>undefined\<close> (brightness, contrast, saturation, gamma, vibrance, hue,
  opacity) contributes its token for every value, zero included. No value is compared
  with a range. Every token of the sequence is a substring of the URL.
\<close>

theorem numeric_fields_verbatim:
  "(width t = Some n \<and> truthyNumber n \<longrightarrow> ''w_'' @ numToString n \<in> set (transformParts t))
   \<and> (height t = Some n \<and> truthyNumber n \<longrightarrow> ''h_'' @ numToString n \<in> set (transformParts t))
   \<and> (dpr t = Some (DprNumber n) \<and> truthyNumber n \<longrightarrow>
        ''dpr_'' @ numToString n \<in> set (transformParts t))
   \<and> (quality t = Some (QNumber n) \<and> truthyNumber n \<longrightarrow>
        ''q_'' @ numToString n \<in> set (transformParts t))
   \<and> (brightness t = Some n \<longrightarrow> ''e_brightness:'' @ numToString n \<in> set (transformParts t))
   \<and> (contrast t = Some n \<longrightarrow> ''e_contrast:'' @ numToString n \<in> set (transformParts t))
   \<and> (saturation t = Some n \<longrightarrow> ''e_saturation:'' @ numToString n \<in> set (transformParts t))
   \<and> (gamma t = Some n \<longrightarrow> ''e_gamma:'' @ numToString n \<in> set (transformParts t))
   \<and> (vibrance t = Some n \<longrightarrow> ''e_vibrance:'' @ numToString n \<in> set (transformParts t))
   \<and> (hue t = Some n \<longrightarrow> ''e_hue:'' @ numToString n \<in> set (transformParts t))
   \<and> (opacity t = Some n \<longrightarrow> ''o_'' @ numToString n \<in> set (transformParts t))
   \<and> (blur t = Some n \<and> truthyNumber n \<longrightarrow>
        ''e_blur:'' @ numToString n \<in> set (transformParts t))
   \<and> (sharpen t = Some n \<and> truthyNumber n \<longrightarrow>
        ''e_sharpen:'' @ numToString n \<in> set (transformParts t))
   \<and> (sepia t = Some n \<and> truthyNumber n \<longrightarrow>
        ''e_sepia:'' @ numToString n \<in> set (transformParts t))
   \<and> (oilPaint t = Some n \<and> truthyNumber n \<longrightarrow>
        ''e_oil_paint:'' @ numToString n \<in> set (transformParts t))
   \<and> (vignette t = Some (VignetteNumber n) \<and> truthyNumber n \<longrightarrow>
        ''e_vignette:'' @ numToString n \<in> set (transformParts t))
   \<and> (pixelate t = Some n \<and> truthyNumber n \<longrightarrow>
        ''e_pixelate:'' @ numToString n \<in> set (transformParts t))
   \<and> (angle t = Some n \<and> truthyNumber n \<longrightarrow>
        ''a_'' @ numToString n \<in> set (transformParts t))
   \<and> (tok \<in> set (transformParts t) \<longrightarrow> sublist tok (buildCloudinaryUrl env publicId t))"
proof (intro conjI impI; (elim conjE)?)
  show "sublist tok (buildCloudinaryUrl env publicId t)" if "tok \<in> set (transformParts t)"
    using that by (rule token_in_url)
qed (simp_all add: transformParts_tokens tokenOf_def notUndefined_def)

text \<open>
  Witness for C3: every numeric field set to 600, which is out of the documented range
  for most of them; each token carries \<^verbatim>\<open>600\<close>.
\<close>

theorem numeric_fields_verbatim_witness:
  "''w_600'' \<in> set (transformParts allNumericOptions)
   \<and> ''h_600'' \<in> set (transformParts allNumericOptions)
   \<and> ''dpr_600'' \<in> set (transformParts allNumericOptions)
   \<and> ''q_600'' \<in> set (transformParts allNumericOptions)
   \<and> ''e_brightness:600'' \<in> set (transformParts allNumericOptions)
   \<and> ''e_contrast:600'' \<in> set (transformParts allNumericOptions)
   \<and> ''e_saturation:600'' \<in> set (transformParts allNumericOptions)
   \<and> ''e_gamma:600'' \<in> set (transformParts allNumericOptions)
   \<and> ''e_vibrance:600'' \<in> set (transformParts allNumericOptions)
   \<and> ''e_hue:600'' \<in> set (transformParts allNumericOptions)
   \<and> ''o_600'' \<in> set (transformParts allNumericOptions)
   \<and> ''e_blur:600'' \<in> set (transformParts allNumericOptions)
   \<and> ''e_sharpen:600'' \<in> set (transformParts allNumericOptions)
   \<and> ''e_sepia:600'' \<in> set (transformParts allNumericOptions)
   \<and> ''e_oil_paint:600'' \<in> set (transformParts allNumericOptions)
   \<and> ''e_vignette:600'' \<in> set (transformParts allNumericOptions)
   \<and> ''e_pixelate:600'' \<in> set (transformParts allNumericOptions)
   \<and> ''a_600'' \<in> set (transformParts allNumericOptions)
   \<and> sublist ''w_600'' (buildCloudinaryUrl unsetEnv ''sample'' allNumericOptions)"
proof -
  have fields:
    "width allNumericOptions = Some (Fin 600)" "height allNumericOptions = Some (Fin 600)"
    "dpr allNumericOptions = Some (DprNumber (Fin 600))"
    "quality allNumericOptions = Some (QNumber (Fin 600))"
    "brightness allNumericOptions = Some (Fin 600)" "contrast allNumericOptions = Some (Fin 600)"
    "saturation allNumericOptions = Some (Fin 600)" "gamma allNumericOptions = Some (Fin 600)"
    "vibrance allNumericOptions = Some (Fin 600)" "hue allNumericOptions = Some (Fin 600)"
    "opacity allNumericOptions = Some (Fin 600)" "blur allNumericOptions = Some (Fin 600)"
    "sharpen allNumericOptions = Some (Fin 600)" "sepia allNumericOptions = Some (Fin 600)"
    "oilPaint allNumericOptions = Some (Fin 600)"
    "vignette allNumericOptions = Some (VignetteNumber (Fin 600))"
    "pixelate allNumericOptions = Some (Fin 600)" "angle allNumericOptions = Some (Fin 600)"
    by (simp_all add: allNumericOptions_def)
  have truthy: "truthyNumber (Fin 600)" by simp
  show ?thesis
    using numeric_fields_verbatim
      [of allNumericOptions "Fin 600" "''w_600''" unsetEnv "''sample''"]
    by (simp add: fields truthy numToString_600 del: numToString.simps truthyNumber.simps)
qed

text \<open>
  C3 as stated fails at the value 0 of a field guarded by truthiness: with the width set
  to 0 no token is pushed, and the URL has no \<^verbatim>\<open>w_0\<close>.
\<close>

theorem width_zero_dropped:
  "width (emptyTransforms\<lparr>width := Some (Fin 0)\<rparr>) = Some (Fin 0)
   \<and> transformParts (emptyTransforms\<lparr>width := Some (Fin 0)\<rparr>) = []
   \<and> buildCloudinaryUrl unsetEnv ''sample'' (emptyTransforms\<lparr>width := Some (Fin 0)\<rparr>) =
       ''https://res.cloudinary.com/demo/image/upload/sample''
   \<and> \<not> sublist (''w_'' @ numToString (Fin 0))
         (buildCloudinaryUrl unsetEnv ''sample'' (emptyTransforms\<lparr>width := Some (Fin 0)\<rparr>))"
proof -
  have parts: "transformParts (emptyTransforms\<lparr>width := Some (Fin 0)\<rparr>) = []"
    by (simp add: tokenEval)
  have url: "buildCloudinaryUrl unsetEnv ''sample'' (emptyTransforms\<lparr>width := Some (Fin 0)\<rparr>) =
       ''https://res.cloudinary.com/demo/image/upload/sample''"
    by (simp add: buildCloudinaryUrl_def parts getCloudName_unsetEnv)
  have "\<not> sublist ''w_0'' ''https://res.cloudinary.com/demo/image/upload/sample''"
    by (simp add: sublist_Cons_right)
  then show ?thesis
    by (simp add: parts url numToString_values del: numToString.simps)
qed

subsection \<open>The identifier check\<close>

lemma charBetween_lower:
  "charBetween CHR ''a'' CHR ''z'' c \<longleftrightarrow> c \<in> set ''abcdefghijklmnopqrstuvwxyz''"
proof
  assume "charBetween CHR ''a'' CHR ''z'' c"
  then have b: "(97::nat) \<le> of_char c" "(of_char c :: nat) \<le> 122"
    by (simp_all add: charBetween_def)
  have "n = 97 \<or> n = 98 \<or> n = 99 \<or> n = 100 \<or> n = 101 \<or> n = 102 \<or> n = 103 \<or> n = 104 \<or> n = 105 \<or> n = 106 \<or> n = 107 \<or> n = 108 \<or> n = 109 \<or> n = 110 \<or> n = 111 \<or> n = 112 \<or> n = 113 \<or> n = 114 \<or> n = 115 \<or> n = 116 \<or> n = 117 \<or> n = 118 \<or> n = 119 \<or> n = 120 \<or> n = 121 \<or> n = 122"
    if "(97::nat) \<le> n" "n \<le> 122" for n
    using that by arith
  from this [OF b] have "(of_char c :: nat) \<in> of_char ` set ''abcdefghijklmnopqrstuvwxyz''"
    by auto
  then show "c \<in> set ''abcdefghijklmnopqrstuvwxyz''"
    by (auto simp del: set_simps)
next
  assume "c \<in> set ''abcdefghijklmnopqrstuvwxyz''"
  then show "charBetween CHR ''a'' CHR ''z'' c"
    by (auto simp: charBetween_def)
qed

lemma charBetween_upper:
  "charBetween CHR ''A'' CHR ''Z'' c \<longleftrightarrow> c \<in> set ''ABCDEFGHIJKLMNOPQRSTUVWXYZ''"
proof
  assume "charBetween CHR ''A'' CHR ''Z'' c"
  then have b: "(65::nat) \<le> of_char c" "(of_char c :: nat) \<le> 90"
    by (simp_all add: charBetween_def)
  have "n = 65 \<or> n = 66 \<or> n = 67 \<or> n = 68 \<or> n = 69 \<or> n = 70 \<or> n = 71 \<or> n = 72 \<or> n = 73 \<or> n = 74 \<or> n = 75 \<or> n = 76 \<or> n = 77 \<or> n = 78 \<or> n = 79 \<or> n = 80 \<or> n = 81 \<or> n = 82 \<or> n = 83 \<or> n = 84 \<or> n = 85 \<or> n = 86 \<or> n = 87 \<or> n = 88 \<or> n = 89 \<or> n = 90"
    if "(65::nat) \<le> n" "n \<le> 90" for n
    using that by arith
  from this [OF b] have "(of_char c :: nat) \<in> of_char ` set ''ABCDEFGHIJKLMNOPQRSTUVWXYZ''"
    by auto
  then show "c \<in> set ''ABCDEFGHIJKLMNOPQRSTUVWXYZ''"
    by (auto simp del: set_simps)
next
  assume "c \<in> set ''ABCDEFGHIJKLMNOPQRSTUVWXYZ''"
  then show "charBetween CHR ''A'' CHR ''Z'' c"
    by (auto simp: charBetween_def)
qed

lemma charBetween_digit:
  "charBetween CHR ''0'' CHR ''9'' c \<longleftrightarrow> c \<in> set ''0123456789''"
proof
  assume "charBetween CHR ''0'' CHR ''9'' c"
  then have b: "(48::nat) \<le> of_char c" "(of_char c :: nat) \<le> 57"
    by (simp_all add: charBetween_def)
  have "n = 48 \<or> n = 49 \<or> n = 50 \<or> n = 51 \<or> n = 52 \<or> n = 53 \<or> n = 54 \<or> n = 55 \<or> n = 56 \<or> n = 57"
    if "(48::nat) \<le> n" "n \<le> 57" for n
    using that by arith
  from this [OF b] have "(of_char c :: nat) \<in> of_char ` set ''0123456789''"
    by auto
  then show "c \<in> set ''0123456789''"
    by (auto simp del: set_simps)
next
  assume "c \<in> set ''0123456789''"
  then show "charBetween CHR ''0'' CHR ''9'' c"
    by (auto simp: charBetween_def)
qed

lemma validIdClass_conservative: "validIdClass c \<longleftrightarrow> conservativeChar c"
  unfolding validIdClass_def conservativeChar_def isLetter_def isDigit_def
    charBetween_lower charBetween_upper charBetween_digit
  by auto

lemma matchOneOrMore_iff: "matchOneOrMore cls s \<longleftrightarrow> s \<noteq> [] \<and> (\<forall>c \<in> set s. cls c)"
  by (induction cls s rule: matchOneOrMore.induct) auto

lemma buildCloudinaryUrl_append_id:
  "buildCloudinaryUrl env publicId t = buildCloudinaryUrl env [] t @ publicId"
  by (simp add: buildCloudinaryUrl_def Let_def)

text \<open>
  C9. \<^verbatim>\<open>validatePublicId\<close> accepts exactly the non-empty strings all of whose characters
  are (ASCII) letters, digits, underscore, hyphen, slash or dot. The builder does not
  call it: for every identifier, accepted or not, the URL is the URL for the empty
  identifier followed by the identifier as it is.
\<close>

theorem validatePublicId_char_class:
  "(validatePublicId publicId \<longleftrightarrow>
      publicId \<noteq> [] \<and> (\<forall>c \<in> set publicId. conservativeChar c))
   \<and> buildCloudinaryUrl env publicId t = buildCloudinaryUrl env [] t @ publicId"
proof
  show "validatePublicId publicId \<longleftrightarrow>
      publicId \<noteq> [] \<and> (\<forall>c \<in> set publicId. conservativeChar c)"
    by (auto simp: validatePublicId_def validIdRegex_test_def truthyString_def
        matchOneOrMore_iff validIdClass_conservative)
next
  show "buildCloudinaryUrl env publicId t = buildCloudinaryUrl env [] t @ publicId"
    by (rule buildCloudinaryUrl_append_id)
qed

text \<open>
  Witness for C9: an accepted identifier, and a rejected one (it has a space) that the
  builder still places in the URL unchanged.
\<close>

theorem validatePublicId_char_class_witness:
  "validatePublicId ''shoes/red''
   \<and> \<not> validatePublicId ''a b''
   \<and> buildCloudinaryUrl unsetEnv ''a b'' emptyTransforms =
       ''https://res.cloudinary.com/demo/image/upload/a b''"
proof -
  have ok: "\<forall>c \<in> set ''shoes/red''. conservativeChar c"
    by (simp add: conservativeChar_def isLetter_def isDigit_def)
  have bad: "\<not> (\<forall>c \<in> set ''a b''. conservativeChar c)"
    by (simp add: conservativeChar_def isLetter_def isDigit_def)
  have root: "buildCloudinaryUrl unsetEnv [] emptyTransforms =
      ''https://res.cloudinary.com/demo/image/upload/''"
    by (simp add: buildCloudinaryUrl_def transformParts_empty getCloudName_unsetEnv)
  from validatePublicId_char_class [of "''shoes/red''" unsetEnv emptyTransforms] ok
  have 1: "validatePublicId ''shoes/red''" by simp
  from validatePublicId_char_class [of "''a b''" unsetEnv emptyTransforms] bad root
  have 2: "\<not> validatePublicId ''a b'' \<and> buildCloudinaryUrl unsetEnv ''a b'' emptyTransforms =
       ''https://res.cloudinary.com/demo/image/upload/a b''" by simp
  from 1 2 show ?thesis by (rule conjI)
qed

subsection \<open>The format token\<close>

lemma filter_tokenOf:
  "filter P (tokenOf field guard token) = tokenOf field (\<lambda>v. guard v \<and> P (token v)) token"
  by (simp add: tokenOf_def split: option.split)

lemma tokenOf_never: "tokenOf field (\<lambda>v. False) token = []"
  by (simp add: tokenOf_def split: option.split)

lemma isFormatToken_simps:
  "isFormatToken (c # d # rest) \<longleftrightarrow> c = CHR ''f'' \<and> d = CHR ''_''"
  "\<not> isFormatToken [c]" "\<not> isFormatToken []"
  by (simp_all add: isFormatToken_def)

lemma filter_format_tokens:
  "filter isFormatToken (transformParts t) =
     filter isFormatToken (formatTokens t) @
     filter isFormatToken (tokenOf (customTransform t) truthyString (\<lambda>v. v))"
  unfolding transformParts_tokens filter_append filter_tokenOf
  by (simp add: isFormatToken_simps tokenOf_never del: tokenOf_def)

lemma customTokens_format:
  "filter isFormatToken (tokenOf (customTransform t) truthyString (\<lambda>v. v)) =
     (case customTransform t of
        Some raw \<Rightarrow> if isFormatToken raw then [raw] else []
      | None \<Rightarrow> [])"
  by (auto simp: tokenOf_def truthyString_def isFormatToken_def split: option.split)

lemma transformParts_format_ignored:
  "fetchFormat t = Some ff \<Longrightarrow> transformParts (t\<lparr>format := x\<rparr>) = transformParts t"
  by (simp add: transformParts_tokens formatTokens_eq)

text \<open>
  C10. The format step pushes at most one token: \<^verbatim>\<open>f_<fetchFormat>\<close> when
  \<^verbatim>\<open>fetchFormat\<close> is set, and \<^verbatim>\<open>f_<format>\<close> only when \<^verbatim>\<open>fetchFormat\<close> is unset and
  \<^verbatim>\<open>format\<close> is set. With \<^verbatim>\<open>fetchFormat\<close> set the \<^verbatim>\<open>format\<close> field is ignored
  (any change of it leaves the tokens and the URL as they are), and the only token with
  the key \<^verbatim>\<open>f_\<close> that the builder derives from the option fields is
  \<^verbatim>\<open>f_<fetchFormat>\<close>; the raw \<^verbatim>\<open>customTransform\<close> string, pushed as the caller wrote it,
  is the only other token that can begin with \<^verbatim>\<open>f_\<close>.
\<close>

theorem fetchFormat_overrides_format:
  "formatTokens t =
     (case fetchFormat t of
        Some ff \<Rightarrow> [''f_'' @ fetchFormatToString ff]
      | None \<Rightarrow> (case format t of Some f \<Rightarrow> [''f_'' @ formatToString f] | None \<Rightarrow> []))
   \<and> (fetchFormat t = Some ff \<longrightarrow>
        transformParts (t\<lparr>format := x\<rparr>) = transformParts t
      \<and> buildCloudinaryUrl env publicId (t\<lparr>format := x\<rparr>) = buildCloudinaryUrl env publicId t
      \<and> filter isFormatToken (transformParts t) =
          (''f_'' @ fetchFormatToString ff) #
            (case customTransform t of
               Some raw \<Rightarrow> if isFormatToken raw then [raw] else []
             | None \<Rightarrow> []))"
proof (intro conjI impI)
  show "formatTokens t =
     (case fetchFormat t of
        Some ff \<Rightarrow> [''f_'' @ fetchFormatToString ff]
      | None \<Rightarrow> (case format t of Some f \<Rightarrow> [''f_'' @ formatToString f] | None \<Rightarrow> []))"
    by (rule formatTokens_eq)
next
  assume ff: "fetchFormat t = Some ff"
  show parts: "transformParts (t\<lparr>format := x\<rparr>) = transformParts t"
    using ff by (rule transformParts_format_ignored)
  show "buildCloudinaryUrl env publicId (t\<lparr>format := x\<rparr>) = buildCloudinaryUrl env publicId t"
    by (simp add: buildCloudinaryUrl_def parts)
  have "filter isFormatToken (formatTokens t) = [''f_'' @ fetchFormatToString ff]"
    using ff by (simp add: formatTokens_eq isFormatToken_simps)
  then show "filter isFormatToken (transformParts t) =
          (''f_'' @ fetchFormatToString ff) #
            (case customTransform t of
               Some raw \<Rightarrow> if isFormatToken raw then [raw] else []
             | None \<Rightarrow> [])"
    by (simp add: filter_format_tokens customTokens_format)
qed

text \<open>Witness for C10: \<^verbatim>\<open>fetchFormat: 'auto'\<close> together with \<^verbatim>\<open>format: 'png'\<close>.\<close>

theorem fetchFormat_overrides_format_witness:
  "transformParts (emptyTransforms\<lparr>fetchFormat := Some FFAuto, format := Some FPng\<rparr>) =
     [''f_auto'']
   \<and> buildCloudinaryUrl unsetEnv ''sample''
       (emptyTransforms\<lparr>fetchFormat := Some FFAuto, format := Some FPng\<rparr>) =
     ''https://res.cloudinary.com/demo/image/upload/f_auto/sample''
   \<and> filter isFormatToken
       (transformParts (emptyTransforms\<lparr>fetchFormat := Some FFAuto, format := Some FPng\<rparr>)) =
     [''f_auto'']"
proof -
  let ?t = "emptyTransforms\<lparr>fetchFormat := Some FFAuto, format := Some FPng\<rparr>"
  have ff: "fetchFormat ?t = Some FFAuto" by simp
  have upd: "?t\<lparr>format := None\<rparr> = emptyTransforms\<lparr>fetchFormat := Some FFAuto\<rparr>"
    by (simp add: emptyTransforms_def)
  have parts: "transformParts (emptyTransforms\<lparr>fetchFormat := Some FFAuto\<rparr>) = [''f_auto'']"
    by (simp add: tokenEval)
  have url: "buildCloudinaryUrl unsetEnv ''sample'' (emptyTransforms\<lparr>fetchFormat := Some FFAuto\<rparr>) =
     ''https://res.cloudinary.com/demo/image/upload/f_auto/sample''"
    by (simp add: buildCloudinaryUrl_def parts getCloudName_unsetEnv)
  have custom: "customTransform ?t = None" by (simp add: emptyTransforms_def)
  from fetchFormat_overrides_format [of ?t FFAuto None unsetEnv "''sample''"] ff
  have "transformParts (?t\<lparr>format := None\<rparr>) = transformParts ?t"
    and "buildCloudinaryUrl unsetEnv ''sample'' (?t\<lparr>format := None\<rparr>) =
         buildCloudinaryUrl unsetEnv ''sample'' ?t"
    and "filter isFormatToken (transformParts ?t) =
          (''f_'' @ fetchFormatToString FFAuto) #
            (case customTransform ?t of
               Some raw \<Rightarrow> if isFormatToken raw then [raw] else []
             | None \<Rightarrow> [])"
    by blast+
  then show ?thesis
    unfolding upd parts url custom by simp
qed

end
